theory Spec2Isabelle
  imports Main
begin

section \<open>CornCare consultation chat: unread tracking and polling\<close>

text \<open>
  The development embeds the chat and unread-notification code of the CornCare frontend:
  \<^item> \<^verbatim>\<open>frontend/src/lib/auth-api.ts\<close> (\<^verbatim>\<open>getUnreadCount\<close>),
  \<^item> \<^verbatim>\<open>frontend/src/components/NotificationBadge.tsx\<close> and \<^verbatim>\<open>ChatIcon.tsx\<close>,
  \<^item> \<^verbatim>\<open>frontend/src/components/UserChatPanel.tsx\<close> and \<^verbatim>\<open>ExpertChatPanel.tsx\<close>,
  \<^item> \<^verbatim>\<open>frontend/src/pages/ExpertDashboard.tsx\<close> and the farmer-side
    \<^verbatim>\<open>ExpertConsultation\<close> page.

  Conventions. A JavaScript \<^verbatim>\<open>number\<close> that holds a count is an \<open>int\<close>. A promise that
  may reject is a value of \<open>error + 'a\<close> (\<open>Inl\<close> is the rejection). A React state object
  \<^verbatim>\<open>{[key: string]: number}\<close> is a map \<open>string \<rightharpoonup> int\<close>. A function component's handler reads
  its state variables from the render it was created in and writes through functional
  updates; so every handler takes the values of that render (\<open>snap\<close>) and the state the
  updates are applied to as two arguments. A \<open>char\<close> of a text stands for the UTF-16 code
  unit of the same number.
\<close>

subsection \<open>Errors, outcomes and control flow\<close>

datatype error = NetworkError | HttpError nat

text \<open>
  The outcome of running a block of statements on a state: \<open>(None, s)\<close> when the block
  ran to its end, \<open>(Some e, s)\<close> when \<open>e\<close> was thrown and is propagating. State updates
  made before the throw are kept.
\<close>

type_synonym 's outcome = "error option \<times> 's"

definition await :: "error + 'a \<Rightarrow> ('a \<Rightarrow> 's \<Rightarrow> 's outcome) \<Rightarrow> 's \<Rightarrow> 's outcome" where
  "await r k s = (case r of Inl e \<Rightarrow> (Some e, s) | Inr v \<Rightarrow> k v s)"

definition try_catch :: "('s \<Rightarrow> 's outcome) \<Rightarrow> (error \<Rightarrow> 's \<Rightarrow> 's outcome) \<Rightarrow> 's \<Rightarrow> 's outcome" where
  "try_catch body handler s =
     (case body s of (None, s') \<Rightarrow> (None, s') | (Some e, s') \<Rightarrow> handler e s')"

definition try_finally :: "('s \<Rightarrow> 's outcome) \<Rightarrow> ('s \<Rightarrow> 's outcome) \<Rightarrow> 's \<Rightarrow> 's outcome" where
  "try_finally body fin s =
     (case body s of (r, s') \<Rightarrow>
        (case fin s' of (None, s'') \<Rightarrow> (r, s'') | (Some e, s'') \<Rightarrow> (Some e, s'')))"

definition seq :: "('s \<Rightarrow> 's outcome) \<Rightarrow> ('s \<Rightarrow> 's outcome) \<Rightarrow> 's \<Rightarrow> 's outcome" where
  "seq a b s = (case a s of (None, s') \<Rightarrow> b s' | (Some e, s') \<Rightarrow> (Some e, s'))"

definition done_with :: "('s \<Rightarrow> 's) \<Rightarrow> 's \<Rightarrow> 's outcome" where
  "done_with f s = (None, f s)"

text \<open>\<^verbatim>\<open>for (const x of xs) { body }\<close>: a throw in the body leaves the loop.\<close>

fun for_of :: "'a list \<Rightarrow> ('a \<Rightarrow> 's \<Rightarrow> 's outcome) \<Rightarrow> 's \<Rightarrow> 's outcome" where
  "for_of [] body s = (None, s)"
| "for_of (x # xs) body s =
     (case body x s of (None, s') \<Rightarrow> for_of xs body s' | (Some e, s') \<Rightarrow> (Some e, s'))"

subsection \<open>Notification badge\<close>

text \<open>
  \<^verbatim>\<open>NotificationBadge\<close> returns \<^verbatim>\<open>null\<close> for a zero count and otherwise a \<^verbatim>\<open>div\<close> whose
  child is \<^verbatim>\<open>count > 99 ? '99+' : count\<close>: the string or the number itself.
\<close>

datatype badge_child = BadgeText string | BadgeNumber int

definition NotificationBadge :: "int \<Rightarrow> badge_child option" where
  "NotificationBadge count =
     (if count = 0 then None
      else Some (if count > 99 then BadgeText ''99+'' else BadgeNumber count))"

text \<open>\<^verbatim>\<open>ChatIcon\<close> defaults a missing \<^verbatim>\<open>unreadCount\<close> prop to 0 and renders the badge with it.\<close>

definition ChatIcon :: "int option \<Rightarrow> badge_child option" where
  "ChatIcon unreadCount =
     NotificationBadge (case unreadCount of None \<Rightarrow> 0 | Some c \<Rightarrow> c)"

subsection \<open>Response payloads and \<^verbatim>\<open>getUnreadCount\<close>\<close>

text \<open>
  The body of an HTTP response (\<^verbatim>\<open>res.data\<close>) is any JSON value, or \<^verbatim>\<open>undefined\<close> when
  the body is empty. The fields of an object carry distinct keys.
\<close>

datatype js_value =
    JUndefined
  | JNull
  | JBool bool
  | JNumber int
  | JString string
  | JObject "(string \<times> js_value) list"

text \<open>\<^verbatim>\<open>v?.k\<close>: \<^verbatim>\<open>undefined\<close> on \<^verbatim>\<open>null\<close>, \<^verbatim>\<open>undefined\<close>, a primitive or a missing key.\<close>

definition optional_chain :: "js_value \<Rightarrow> string \<Rightarrow> js_value" where
  "optional_chain v k =
     (case v of
        JObject fields \<Rightarrow> (case map_of fields k of None \<Rightarrow> JUndefined | Some x \<Rightarrow> x)
      | _ \<Rightarrow> JUndefined)"

text \<open>
  \<^verbatim>\<open>getUnreadCount\<close> awaits the GET of \<^verbatim>\<open>/expert/chat/{id}/unread_count\<close> (a rejection
  propagates to the caller) and returns
  \<^verbatim>\<open>typeof res.data?.unread === 'number' ? res.data.unread : 0\<close>.
  The argument is the outcome of the GET.
\<close>

definition getUnreadCount :: "error + js_value \<Rightarrow> error + int" where
  "getUnreadCount res =
     (case res of
        Inl e \<Rightarrow> Inl e
      | Inr data \<Rightarrow>
          Inr (case optional_chain data ''unread'' of JNumber n \<Rightarrow> n | _ \<Rightarrow> 0))"

subsection \<open>Messages, requests and the backend seen by the client\<close>

datatype sender = User | Expert

record chat_message =
  msg_id :: string
  request_id :: string
  sender :: sender
  message :: string
  timestamp :: string
  file_url :: "string option"
  file_name :: "string option"
  file_mime :: "string option"
  file_size :: "int option"

text \<open>A consultation request as the chat code reads it: its \<^verbatim>\<open>id\<close> and its \<^verbatim>\<open>disease\<close>.\<close>

record request =
  req_id :: string
  disease :: string

text \<open>
  The replies of the backend to the calls a handler makes while it runs: each endpoint
  either rejects or resolves with its payload. \<^verbatim>\<open>getChatMessages\<close> and
  \<^verbatim>\<open>getExpertChatMessages\<close> call the same endpoint, with the farmer's and the expert's
  token.
\<close>

record backend =
  getPendingRequests :: "error + request list"
  getMyRequests :: "error + request list"
  getExpertRequests :: "error + request list"
  unread_count_reply :: "string \<Rightarrow> error + js_value"
  getChatMessages :: "string \<Rightarrow> error + chat_message list"
  getExpertChatMessages :: "string \<Rightarrow> error + chat_message list"
  markChatRead :: "string \<Rightarrow> error + unit"
  startChatSession :: "string \<Rightarrow> error + unit"
  sendChatMessage :: "string \<Rightarrow> string \<Rightarrow> string option \<Rightarrow> error + chat_message"
  sendExpertChatMessage :: "string \<Rightarrow> string \<Rightarrow> string option \<Rightarrow> error + chat_message"

text \<open>\<^verbatim>\<open>Promise.all([a, b])\<close> rejects when either promise rejects.\<close>

definition promise_all :: "error + 'a \<Rightarrow> error + 'b \<Rightarrow> error + ('a \<times> 'b)" where
  "promise_all a b =
     (case a of
        Inl e \<Rightarrow> Inl e
      | Inr x \<Rightarrow> (case b of Inl e \<Rightarrow> Inl e | Inr y \<Rightarrow> Inr (x, y)))"

text \<open>\<^verbatim>\<open>v || 0\<close> on a count that may be \<^verbatim>\<open>undefined\<close>; 0 is the only falsy number here.\<close>

definition or_zero :: "int option \<Rightarrow> int" where
  "or_zero v = (case v of None \<Rightarrow> 0 | Some n \<Rightarrow> n)"

definition count_from :: "sender \<Rightarrow> chat_message list \<Rightarrow> int" where
  "count_from who msgs = int (length (filter (\<lambda>m. sender m = who) msgs))"

subsection \<open>State of the two pages\<close>

text \<open>
  Both pages keep \<^verbatim>\<open>unreadCounts\<close>, \<^verbatim>\<open>lastMessageCounts\<close>, \<^verbatim>\<open>openChatId\<close> and
  \<^verbatim>\<open>showChat\<close>; the expert dashboard also keeps \<^verbatim>\<open>selectedChatRequest\<close>, the farmer's
  consultation page \<^verbatim>\<open>activeChat\<close>.
\<close>

record dashboard =
  unreadCounts :: "string \<rightharpoonup> int"
  lastMessageCounts :: "string \<rightharpoonup> int"
  openChatId :: "string option"
  showChat :: bool

record expert_dashboard = dashboard +
  selectedChatRequest :: "request option"

record expert_consultation = dashboard +
  activeChat :: "request option"

definition setUnreadCount :: "string \<Rightarrow> int \<Rightarrow> 'a dashboard_scheme \<Rightarrow> 'a dashboard_scheme" where
  "setUnreadCount rid n d = d\<lparr>unreadCounts := (unreadCounts d)(rid \<mapsto> n)\<rparr>"

definition setLastMessageCount :: "string \<Rightarrow> int \<Rightarrow> 'a dashboard_scheme \<Rightarrow> 'a dashboard_scheme" where
  "setLastMessageCount rid n d = d\<lparr>lastMessageCounts := (lastMessageCounts d)(rid \<mapsto> n)\<rparr>"

text \<open>The count a chat icon is given: \<^verbatim>\<open>unreadCounts[request.id] || 0\<close>.\<close>

definition displayed_unread :: "'a dashboard_scheme \<Rightarrow> string \<Rightarrow> int" where
  "displayed_unread d rid = or_zero (unreadCounts d rid)"

text \<open>
  The state of each page when it mounts: the initial values of its \<^verbatim>\<open>useState\<close> calls.
  These are also the values the closures of the mount render hold.
\<close>

definition fresh_expert_dashboard :: expert_dashboard where
  "fresh_expert_dashboard =
     \<lparr>unreadCounts = Map.empty, lastMessageCounts = Map.empty, openChatId = None,
      showChat = False, selectedChatRequest = None\<rparr>"

definition fresh_consultation :: expert_consultation where
  "fresh_consultation =
     \<lparr>unreadCounts = Map.empty, lastMessageCounts = Map.empty, openChatId = None,
      showChat = False, activeChat = None\<rparr>"

text \<open>
  The browser document a page lives in: the state of the component and the address
  assigned to \<^verbatim>\<open>window.location.href\<close>, if any. Once an address is assigned the document is
  being replaced, and the component with its intervals goes with it.
\<close>

record 's document =
  component :: 's
  location_href :: "string option"

definition on_component :: "('s \<Rightarrow> 's outcome) \<Rightarrow> 's document \<Rightarrow> 's document outcome" where
  "on_component body doc =
     (case body (component doc) of (r, s') \<Rightarrow> (r, doc\<lparr>component := s'\<rparr>))"

text \<open>
  The response interceptor of \<^verbatim>\<open>expertAPI\<close> (\<^verbatim>\<open>ExpertAuthContext\<close>), through which
  \<^verbatim>\<open>getPendingRequests\<close> and \<^verbatim>\<open>getMyRequests\<close> go: on a 401 it removes the expert's token
  and assigns \<^verbatim>\<open>window.location.href = '/expert-login'\<close>; the rejection is passed on in any
  case. (The interceptor of \<^verbatim>\<open>api\<close> in \<^verbatim>\<open>auth-api.ts\<close>, used by all chat endpoints, only
  clears the farmer's token.)
\<close>

definition expertAPI_interceptor :: "error + 'a \<Rightarrow> 's document \<Rightarrow> 's document outcome" where
  "expertAPI_interceptor reply =
     done_with (\<lambda>doc.
       (case reply of
          Inl (HttpError status) \<Rightarrow>
            if status = 401 then doc\<lparr>location_href := Some ''/expert-login''\<rparr> else doc
        | _ \<Rightarrow> doc))"

subsection \<open>Expert dashboard (\<^verbatim>\<open>ExpertDashboard.tsx\<close>)\<close>

text \<open>
  The body of the loop of \<^verbatim>\<open>checkForNewMessages\<close> for one request. The open chat is
  skipped. The server's unread count is stored; when it is 0 the baseline is synchronised
  with the number of user messages (a failure of that fetch is ignored). When the unread
  count cannot be fetched, the fallback computes the unread count from the baseline of the
  render (\<open>snap\<close>) and moves the baseline to the current count.
\<close>

definition expert_poll_request ::
  "backend \<Rightarrow> expert_dashboard \<Rightarrow> request \<Rightarrow> expert_dashboard \<Rightarrow> expert_dashboard outcome" where
  "expert_poll_request srv snap request =
     (if openChatId snap = Some (req_id request) then done_with id
      else
        try_catch
          (await (getUnreadCount (unread_count_reply srv (req_id request))) (\<lambda>unread.
             seq (done_with (setUnreadCount (req_id request) unread))
               (if unread = 0 then
                  try_catch
                    (await (getExpertChatMessages srv (req_id request)) (\<lambda>messages.
                       done_with (setLastMessageCount (req_id request) (count_from User messages))))
                    (\<lambda>e. done_with id)
                else done_with id)))
          (\<lambda>error.
             try_catch
               (await (getExpertChatMessages srv (req_id request)) (\<lambda>messages.
                  let currentCount = count_from User messages;
                      lastKnown = or_zero (lastMessageCounts snap (req_id request));
                      unread = max 0 (currentCount - lastKnown)
                  in seq (done_with (setUnreadCount (req_id request) unread))
                       (done_with (setLastMessageCount (req_id request) currentCount))))
               (\<lambda>e. done_with id)))"

text \<open>
  \<^verbatim>\<open>checkForNewMessages\<close>: both list requests are started at once, so the interceptor sees
  the reply of each; the loop runs when both resolve.
\<close>

definition expert_checkForNewMessages ::
  "backend \<Rightarrow> expert_dashboard \<Rightarrow> expert_dashboard document
     \<Rightarrow> expert_dashboard document outcome" where
  "expert_checkForNewMessages srv snap =
     try_catch
       (seq (expertAPI_interceptor (getPendingRequests srv))
          (seq (expertAPI_interceptor (getMyRequests srv))
             (await (promise_all (getPendingRequests srv) (getMyRequests srv))
                (\<lambda>(pendingData, myData).
                   on_component
                     (for_of (pendingData @ myData) (expert_poll_request srv snap))))))
       (\<lambda>error. done_with id)"

text \<open>
  \<^verbatim>\<open>handleStartChat\<close>: the mark-read call sits in a \<^verbatim>\<open>try\<close> with an empty \<^verbatim>\<open>catch\<close>; the
  four state updates follow it.
\<close>

definition handleStartChat ::
  "backend \<Rightarrow> request \<Rightarrow> expert_dashboard \<Rightarrow> expert_dashboard outcome" where
  "handleStartChat srv request =
     seq (try_catch (await (markChatRead srv (req_id request)) (\<lambda>_. done_with id))
            (\<lambda>e. done_with id))
       (done_with (\<lambda>d. (setUnreadCount (req_id request) 0 d)
          \<lparr>openChatId := Some (req_id request),
           selectedChatRequest := Some request,
           showChat := True\<rparr>))"

definition expert_markMessagesAsRead ::
  "backend \<Rightarrow> string \<Rightarrow> expert_dashboard \<Rightarrow> expert_dashboard outcome" where
  "expert_markMessagesAsRead srv requestId =
     try_catch
       (await (markChatRead srv requestId) (\<lambda>_. done_with (setUnreadCount requestId 0)))
       (\<lambda>e. done_with id)"

text \<open>
  \<^verbatim>\<open>handleCloseChat\<close> zeroes the badge of the selected request first and then starts the
  mark-read call, whose failure is swallowed; it reads \<^verbatim>\<open>selectedChatRequest\<close> from its
  render.
\<close>

definition handleCloseChat ::
  "backend \<Rightarrow> expert_dashboard \<Rightarrow> expert_dashboard \<Rightarrow> expert_dashboard outcome" where
  "handleCloseChat srv snap =
     seq
       (case selectedChatRequest snap of
          None \<Rightarrow> done_with id
        | Some sel \<Rightarrow>
            seq (done_with (setUnreadCount (req_id sel) 0))
              (try_catch (await (markChatRead srv (req_id sel)) (\<lambda>_. done_with id))
                 (\<lambda>e. done_with id)))
       (done_with (\<lambda>d. d\<lparr>showChat := False, selectedChatRequest := None, openChatId := None\<rparr>))"

definition expert_handleNewMessage ::
  "expert_dashboard \<Rightarrow> string \<Rightarrow> expert_dashboard \<Rightarrow> expert_dashboard" where
  "expert_handleNewMessage snap requestId d =
     (if openChatId snap = Some requestId then setUnreadCount requestId 0 d
      else setUnreadCount requestId (or_zero (unreadCounts d requestId) + 1) d)"

subsection \<open>Farmer's consultation page (\<^verbatim>\<open>ExpertConsultation\<close>)\<close>

text \<open>
  \<^verbatim>\<open>checkForNewMessages\<close> here asks the server for the unread count of every request but
  the open one; a failed fetch is logged and the loop goes on.
\<close>

definition farmer_poll_request ::
  "backend \<Rightarrow> expert_consultation \<Rightarrow> request \<Rightarrow> expert_consultation \<Rightarrow> expert_consultation outcome" where
  "farmer_poll_request srv snap request =
     (if openChatId snap = Some (req_id request) then done_with id
      else
        try_catch
          (await (getUnreadCount (unread_count_reply srv (req_id request))) (\<lambda>unread.
             done_with (setUnreadCount (req_id request) unread)))
          (\<lambda>error. done_with id))"

definition farmer_checkForNewMessages ::
  "backend \<Rightarrow> expert_consultation \<Rightarrow> expert_consultation \<Rightarrow> expert_consultation outcome" where
  "farmer_checkForNewMessages srv snap =
     try_catch
       (await (getExpertRequests srv) (\<lambda>data. for_of data (farmer_poll_request srv snap)))
       (\<lambda>error. done_with id)"

text \<open>
  \<^verbatim>\<open>openChat\<close>: session start and mark-read share one \<^verbatim>\<open>try\<close>; whatever happens there,
  the unread count is cleared and the chat opened.
\<close>

definition openChat ::
  "backend \<Rightarrow> string \<Rightarrow> string \<Rightarrow> expert_consultation \<Rightarrow> expert_consultation outcome" where
  "openChat srv requestId disease_name =
     seq
       (try_catch
          (await (startChatSession srv requestId) (\<lambda>_.
             await (markChatRead srv requestId) (\<lambda>_. done_with id)))
          (\<lambda>error. done_with id))
       (done_with (\<lambda>d. (setUnreadCount requestId 0 d)
          \<lparr>openChatId := Some requestId,
           activeChat := Some \<lparr>req_id = requestId, disease = disease_name\<rparr>,
           showChat := True\<rparr>))"

definition farmer_markMessagesAsRead ::
  "backend \<Rightarrow> string \<Rightarrow> expert_consultation \<Rightarrow> expert_consultation outcome" where
  "farmer_markMessagesAsRead srv requestId =
     try_catch
       (await (getChatMessages srv requestId) (\<lambda>messages.
          let currentExpertMessageCount = count_from Expert messages
          in seq (done_with (setLastMessageCount requestId currentExpertMessageCount))
               (done_with (setUnreadCount requestId 0))))
       (\<lambda>error. done_with id)"

definition farmer_handleNewMessage ::
  "expert_consultation \<Rightarrow> string \<Rightarrow> expert_consultation \<Rightarrow> expert_consultation" where
  "farmer_handleNewMessage snap requestId d =
     (if openChatId snap = Some requestId then
        setUnreadCount requestId 0
          (setLastMessageCount requestId (or_zero (lastMessageCounts d requestId) + 1) d)
      else setUnreadCount requestId (or_zero (unreadCounts d requestId) + 1) d)"

subsection \<open>Chat panels (\<^verbatim>\<open>UserChatPanel.tsx\<close>, \<^verbatim>\<open>ExpertChatPanel.tsx\<close>)\<close>

text \<open>
  The state of a panel: the message list, the compose text, the \<^verbatim>\<open>sending\<close> flag, the
  selected attachment (the state variable \<^verbatim>\<open>file\<close>, here the file's name) and the emoji picker flag. Three more
  fields record what the panel does to its surroundings: how often it invoked the
  \<^verbatim>\<open>onNewMessage\<close> callback, the send requests it issued (text and attachment), and the
  alerts it showed.
\<close>

record chat_panel =
  messages :: "chat_message list"
  newMessage :: string
  sending :: bool
  attached_file :: "string option"
  showEmoji :: bool
  onNewMessage_calls :: nat
  send_requests :: "(string \<times> string option) list"
  alerts :: "string list"

text \<open>
  \<^verbatim>\<open>String.prototype.trim\<close> strips the code units that ECMAScript counts as WhiteSpace
  (TAB, VT, FF, ZWNBSP and the space separators) or LineTerminator (LF, CR, LS, PS) from
  both ends.
\<close>

definition is_white_space :: "nat \<Rightarrow> bool" where
  "is_white_space u =
     (u \<in> set [0x0009, 0x000A, 0x000B, 0x000C, 0x000D, 0x0020, 0x00A0, 0x1680,
                0x2000, 0x2001, 0x2002, 0x2003, 0x2004, 0x2005, 0x2006, 0x2007, 0x2008,
                0x2009, 0x200A, 0x2028, 0x2029, 0x202F, 0x205F, 0x3000, 0xFEFF])"

definition is_space :: "char \<Rightarrow> bool" where
  "is_space c = is_white_space (of_char c)"

definition js_trim :: "string \<Rightarrow> string" where
  "js_trim s = rev (dropWhile is_space (rev (dropWhile is_space s)))"

text \<open>
  The guard of both send handlers,
  \<^verbatim>\<open>(!(newMessage && newMessage.trim()) && !file) || sending\<close>: a string is truthy when it is
  not empty.
\<close>

definition send_blocked :: "chat_panel \<Rightarrow> bool" where
  "send_blocked snap =
     ((\<not> (newMessage snap \<noteq> [] \<and> js_trim (newMessage snap) \<noteq> []) \<and> attached_file snap = None)
      \<or> sending snap)"

definition clear_compose :: "chat_message \<Rightarrow> chat_panel \<Rightarrow> chat_panel" where
  "clear_compose msg p =
     p\<lparr>messages := messages p @ [msg], newMessage := [], attached_file := None, showEmoji := False\<rparr>"

definition UserChatPanel_handleSend ::
  "backend \<Rightarrow> string \<Rightarrow> chat_panel \<Rightarrow> chat_panel \<Rightarrow> chat_panel outcome" where
  "UserChatPanel_handleSend srv requestId snap =
     (if send_blocked snap then done_with id
      else
        seq (done_with (\<lambda>p. p\<lparr>sending := True\<rparr>))
          (try_finally
             (try_catch
                (seq
                   (done_with (\<lambda>p. p\<lparr>send_requests :=
                      send_requests p @ [(newMessage snap, attached_file snap)]\<rparr>))
                   (await (sendChatMessage srv requestId (newMessage snap) (attached_file snap))
                      (\<lambda>msg. done_with (clear_compose msg))))
                (\<lambda>e. done_with (\<lambda>p. p\<lparr>alerts := alerts p @ [''Failed to send message'']\<rparr>)))
             (done_with (\<lambda>p. p\<lparr>sending := False\<rparr>))))"

definition ExpertChat_handleSendMessage ::
  "backend \<Rightarrow> string \<Rightarrow> chat_panel \<Rightarrow> chat_panel \<Rightarrow> chat_panel outcome" where
  "ExpertChat_handleSendMessage srv requestId snap =
     (if send_blocked snap then done_with id
      else
        seq (done_with (\<lambda>p. p\<lparr>sending := True\<rparr>))
          (try_finally
             (try_catch
                (seq
                   (done_with (\<lambda>p. p\<lparr>send_requests :=
                      send_requests p @ [(newMessage snap, attached_file snap)]\<rparr>))
                   (await (sendExpertChatMessage srv requestId (newMessage snap) (attached_file snap))
                      (\<lambda>msg. done_with (clear_compose msg))))
                (\<lambda>e. done_with (\<lambda>p. p\<lparr>alerts :=
                   alerts p @ [''Failed to send message. Please try again.'']\<rparr>)))
             (done_with (\<lambda>p. p\<lparr>sending := False\<rparr>))))"

text \<open>
  The updater handed to \<^verbatim>\<open>setMessages\<close> on a poll tick: it compares the numbers of
  counterpart messages in the fetched and in the previous list, invokes \<^verbatim>\<open>onNewMessage\<close>
  (when the prop is given) if the fetched list has more, and replaces the list.
\<close>

definition poll_update :: "sender \<Rightarrow> bool \<Rightarrow> chat_message list \<Rightarrow> chat_panel \<Rightarrow> chat_panel" where
  "poll_update counterpart hasOnNewMessage latest p =
     (let theirMessages = filter (\<lambda>m. sender m = counterpart) latest;
          prevTheirMessages = filter (\<lambda>m. sender m = counterpart) (messages p);
          p' = (if length theirMessages > length prevTheirMessages \<and> hasOnNewMessage
                then p\<lparr>onNewMessage_calls := onNewMessage_calls p + 1\<rparr> else p)
      in p'\<lparr>messages := latest\<rparr>)"

text \<open>
  \<^verbatim>\<open>setMessages(updater)\<close> only queues the updater; React runs the queued updaters after
  the callback has returned, outside the callback's \<^verbatim>\<open>try\<close>.
\<close>

type_synonym 's pending = "'s \<times> ('s \<Rightarrow> 's) list"

definition setState :: "('s \<Rightarrow> 's) \<Rightarrow> 's pending \<Rightarrow> 's pending outcome" where
  "setState updater = done_with (\<lambda>(s, queue). (s, queue @ [updater]))"

definition run_updaters :: "'s pending \<Rightarrow> 's" where
  "run_updaters pq = fold (\<lambda>updater s. updater s) (snd pq) (fst pq)"

text \<open>
  The callbacks of the two 3-second intervals, each against the backend of its tick: the
  fetch and the call of \<^verbatim>\<open>setMessages\<close> sit in a \<^verbatim>\<open>try\<close> whose \<^verbatim>\<open>catch\<close> is empty or
  only logs.
\<close>

definition UserChatPanel_callback ::
  "string \<Rightarrow> bool \<Rightarrow> backend \<Rightarrow> chat_panel pending \<Rightarrow> chat_panel pending outcome" where
  "UserChatPanel_callback requestId hasOnNewMessage srv =
     try_catch
       (await (getChatMessages srv requestId) (\<lambda>latest.
          setState (poll_update Expert hasOnNewMessage latest)))
       (\<lambda>e. done_with id)"

definition ExpertChat_callback ::
  "string \<Rightarrow> bool \<Rightarrow> backend \<Rightarrow> chat_panel pending \<Rightarrow> chat_panel pending outcome" where
  "ExpertChat_callback requestId hasOnNewMessage srv =
     try_catch
       (await (getExpertChatMessages srv requestId) (\<lambda>latestMessages.
          setState (poll_update User hasOnNewMessage latestMessages)))
       (\<lambda>error. done_with id)"

text \<open>A tick of a panel: the callback, then the updaters it queued.\<close>

definition UserChatPanel_tick :: "string \<Rightarrow> bool \<Rightarrow> backend \<Rightarrow> chat_panel \<Rightarrow> chat_panel outcome" where
  "UserChatPanel_tick requestId hasOnNewMessage srv p =
     (case UserChatPanel_callback requestId hasOnNewMessage srv (p, []) of
        (r, pq) \<Rightarrow> (r, run_updaters pq))"

definition ExpertChat_tick :: "string \<Rightarrow> bool \<Rightarrow> backend \<Rightarrow> chat_panel \<Rightarrow> chat_panel outcome" where
  "ExpertChat_tick requestId hasOnNewMessage srv p =
     (case ExpertChat_callback requestId hasOnNewMessage srv (p, []) of
        (r, pq) \<Rightarrow> (r, run_updaters pq))"

subsection \<open>Intervals\<close>

text \<open>
  Both pages register \<^verbatim>\<open>checkForNewMessages\<close> with \<^verbatim>\<open>setInterval\<close> in an effect whose
  dependency list is empty, and call it nowhere else. The callback of the interval is
  therefore the function of the mount render for as long as the page lives: it reads
  \<^verbatim>\<open>openChatId\<close> and \<^verbatim>\<open>lastMessageCounts\<close> as they were at mount.
\<close>

definition ExpertDashboard_tick ::
  "backend \<Rightarrow> expert_dashboard document \<Rightarrow> expert_dashboard document outcome" where
  "ExpertDashboard_tick srv = expert_checkForNewMessages srv fresh_expert_dashboard"

definition ExpertConsultation_tick ::
  "backend \<Rightarrow> expert_consultation \<Rightarrow> expert_consultation outcome" where
  "ExpertConsultation_tick srv = farmer_checkForNewMessages srv fresh_consultation"

text \<open>
  \<^verbatim>\<open>setInterval(tick, ms)\<close>: the callback runs once per period, each time against the
  backend of that moment, for as long as the component is mounted. An error that escapes
  a callback does not clear the interval. The run returns the outcome of every tick that
  was executed, and the final state.
\<close>

fun setInterval_run ::
  "('s \<Rightarrow> bool) \<Rightarrow> ('env \<Rightarrow> 's \<Rightarrow> 's outcome) \<Rightarrow> 'env list \<Rightarrow> 's
     \<Rightarrow> error option list \<times> 's" where
  "setInterval_run mounted tick [] s = ([], s)"
| "setInterval_run mounted tick (env # envs) s =
     (if \<not> mounted s then ([], s)
      else
        (case tick env s of (r, s') \<Rightarrow>
           (case setInterval_run mounted tick envs s' of (rs, s'') \<Rightarrow> (r # rs, s''))))"

text \<open>A list request of the expert dashboard is answered 401.\<close>

definition list_fetch_unauthorized :: "backend \<Rightarrow> bool" where
  "list_fetch_unauthorized srv =
     (getPendingRequests srv = Inl (HttpError 401) \<or> getMyRequests srv = Inl (HttpError 401))"

text \<open>A chat panel and the farmer's page stay mounted; a document stays until it is left.\<close>

definition stays_mounted :: "'s \<Rightarrow> bool" where
  "stays_mounted s = True"

definition on_page :: "'s document \<Rightarrow> bool" where
  "on_page doc = (location_href doc = None)"

subsection \<open>Read cursors\<close>

text \<open>
  Modelled from the spec: the read-cursor tracker behind \<^verbatim>\<open>POST /expert/chat/{id}/read\<close>
  is backend code that is not among the sources; the client's \<^verbatim>\<open>markChatRead\<close> only issues
  the request. Per section 4.2 there is one cursor per (request, role) pair, absent while
  nothing is read; \<^verbatim>\<open>markRead\<close> advances the cursor to at least the marker and is a no-op
  when the existing cursor is already at or beyond it.
\<close>

type_synonym read_cursors = "(string \<times> sender) \<rightharpoonup> nat"

definition markRead :: "string \<Rightarrow> sender \<Rightarrow> nat \<Rightarrow> read_cursors \<Rightarrow> read_cursors" where
  "markRead rid role at_marker cs =
     (case cs (rid, role) of
        None \<Rightarrow> cs((rid, role) \<mapsto> at_marker)
      | Some c \<Rightarrow> if at_marker \<le> c then cs else cs((rid, role) \<mapsto> at_marker))"

definition getCursor :: "string \<Rightarrow> sender \<Rightarrow> read_cursors \<Rightarrow> nat option" where
  "getCursor rid role cs = cs (rid, role)"

text \<open>A sequence of \<^verbatim>\<open>markRead\<close> calls, in the order they reach the tracker.\<close>

fun markRead_all :: "(string \<times> sender \<times> nat) list \<Rightarrow> read_cursors \<Rightarrow> read_cursors" where
  "markRead_all [] cs = cs"
| "markRead_all ((rid, role, m) # calls) cs = markRead_all calls (markRead rid role m cs)"

text \<open>The markers of the calls made on one (request, role) pair.\<close>

definition markers_for :: "string \<Rightarrow> sender \<Rightarrow> (string \<times> sender \<times> nat) list \<Rightarrow> nat list" where
  "markers_for rid role calls =
     map (\<lambda>(r, w, m). m) (filter (\<lambda>(r, w, m). r = rid \<and> w = role) calls)"

subsection \<open>Message store\<close>

text \<open>
  Modelled from the spec: the message store and \<^verbatim>\<open>sendMessage\<close> of the chat session
  service are backend code that is not among the sources; the client's \<^verbatim>\<open>sendChatMessage\<close>
  posts the text and the attachment as they are and returns the reply. Per sections 3, 4.1
  and 7 a send fails with \<^verbatim>\<open>ValidationError\<close> if both text and attachment are empty and
  with \<^verbatim>\<open>NotFoundError\<close> if the request does not exist; otherwise one new record is
  appended, with the next id and the current server time. \<^verbatim>\<open>sendMessage\<close> delegates to
  \<^verbatim>\<open>append\<close> and touches no cursor.
\<close>

datatype store_error = ValidationError | NotFoundError | ForbiddenError | TransientBackendError






subsection \<open>Example inputs\<close>

text \<open>A backend none of whose endpoints answers, a text message and a fresh panel.\<close>

definition offline_backend :: backend where
  "offline_backend =
     \<lparr>getPendingRequests = Inl NetworkError,
      getMyRequests = Inl NetworkError,
      getExpertRequests = Inl NetworkError,
      unread_count_reply = (\<lambda>rid. Inl NetworkError),
      getChatMessages = (\<lambda>rid. Inl NetworkError),
      getExpertChatMessages = (\<lambda>rid. Inl NetworkError),
      markChatRead = (\<lambda>rid. Inl NetworkError),
      startChatSession = (\<lambda>rid. Inl NetworkError),
      sendChatMessage = (\<lambda>rid text att. Inl NetworkError),
      sendExpertChatMessage = (\<lambda>rid text att. Inl NetworkError)\<rparr>"

definition text_message :: "sender \<Rightarrow> string \<Rightarrow> string \<Rightarrow> chat_message" where
  "text_message who mid body =
     \<lparr>msg_id = mid, request_id = ''R1'', sender = who, message = body,
      timestamp = ''2025-01-01T10:00:00'', file_url = None, file_name = None,
      file_mime = None, file_size = None\<rparr>"

definition empty_panel :: chat_panel where
  "empty_panel =
     \<lparr>messages = [], newMessage = [], sending = False, attached_file = None,
      showEmoji = False, onNewMessage_calls = 0, send_requests = [], alerts = []\<rparr>"

definition typing_panel :: chat_panel where
  "typing_panel = empty_panel\<lparr>newMessage := ''leaves are yellowing''\<rparr>"

definition echo_backend :: backend where
  "echo_backend = offline_backend
     \<lparr>sendChatMessage := (\<lambda>rid text att. Inr (text_message User ''m1'' text)),
      sendExpertChatMessage := (\<lambda>rid text att. Inr (text_message Expert ''m2'' text))\<rparr>"


definition two_replies :: "chat_message list" where
  "two_replies =
     [text_message Expert ''m1'' ''apply fungicide X'', text_message Expert ''m2'' ''then water'']"

definition replying_backend :: backend where
  "replying_backend = offline_backend
     \<lparr>getChatMessages := (\<lambda>rid. Inr two_replies),
      getExpertChatMessages := (\<lambda>rid. Inr [text_message User ''m0'' ''leaves are yellowing''])\<rparr>"

definition request_R1 :: request where
  "request_R1 = \<lparr>req_id = ''R1'', disease = ''common rust''\<rparr>"

definition three_user_messages :: "chat_message list" where
  "three_user_messages =
     [text_message User ''m1'' ''leaves are yellowing'',
      text_message Expert ''m2'' ''since when?'',
      text_message User ''m3'' ''since monday'',
      text_message User ''m4'' ''and spreading'']"

text \<open>The unread endpoint is down; the request lists and the messages are served.\<close>

definition unread_down_backend :: backend where
  "unread_down_backend = offline_backend
     \<lparr>getPendingRequests := Inr [],
      getMyRequests := Inr [request_R1],
      getExpertRequests := Inr [request_R1],
      getChatMessages := (\<lambda>rid. Inr two_replies),
      getExpertChatMessages := (\<lambda>rid. Inr three_user_messages)\<rparr>"

text \<open>The server answers every call and reports three unread messages for request R1.\<close>

definition online_backend :: backend where
  "online_backend = unread_down_backend
     \<lparr>unread_count_reply := (\<lambda>rid. Inr (JObject [(''unread'', JNumber 3)])),
      markChatRead := (\<lambda>rid. Inr ()),
      startChatSession := (\<lambda>rid. Inr ())\<rparr>"

definition expert_with_three_unread :: expert_dashboard where
  "expert_with_three_unread = fresh_expert_dashboard
     \<lparr>unreadCounts := [''R1'' \<mapsto> 3], selectedChatRequest := Some request_R1\<rparr>"

definition farmer_with_three_unread :: expert_consultation where
  "farmer_with_three_unread = fresh_consultation\<lparr>unreadCounts := [''R1'' \<mapsto> 3]\<rparr>"

definition interleaved_calls :: "(string \<times> sender \<times> nat) list" where
  "interleaved_calls =
     [(''R1'', Expert, 4), (''R1'', User, 9), (''R1'', Expert, 7), (''R2'', Expert, 20),
      (''R1'', Expert, 2)]"


text \<open>The expert dashboard as it mounts, in its document.\<close>

definition expert_document :: "expert_dashboard document" where
  "expert_document = \<lparr>component = fresh_expert_dashboard, location_href = None\<rparr>"

text \<open>The expert's token has expired: the list requests are answered 401.\<close>

definition unauthorized_backend :: backend where
  "unauthorized_backend = online_backend
     \<lparr>getPendingRequests := Inl (HttpError 401), getMyRequests := Inl (HttpError 401)\<rparr>"

text \<open>Everything in request R1 is read: the server reports no unread message.\<close>

definition all_read_backend :: backend where
  "all_read_backend = online_backend
     \<lparr>unread_count_reply := (\<lambda>rid. Inr (JObject [(''unread'', JNumber 0)]))\<rparr>"

section \<open>Properties\<close>

subsection \<open>Badge rendering\<close>

text \<open>
  Claim C10. For every integer count the badge renders nothing when the count is 0, shows
  the count itself when it lies between 1 and 99, and shows the text 99+ when it exceeds
  99; whatever the count, a number the badge shows is at most 99. The chat icon renders
  the same badge for the count it is given.
\<close>

theorem C10_badge_cap:
  "NotificationBadge 0 = None
   \<and> (1 \<le> count \<and> count \<le> 99 \<longrightarrow> NotificationBadge count = Some (BadgeNumber count))
   \<and> (count > 99 \<longrightarrow> NotificationBadge count = Some (BadgeText ''99+''))
   \<and> (NotificationBadge count = Some (BadgeNumber n) \<longrightarrow> n \<le> 99)
   \<and> ChatIcon (Some count) = NotificationBadge count"
  by (simp add: NotificationBadge_def ChatIcon_def)

theorem C10_badge_cap_witness:
  "NotificationBadge 0 = None
   \<and> (1 \<le> (42::int) \<and> (42::int) \<le> 99) \<and> NotificationBadge 42 = Some (BadgeNumber 42)
   \<and> (250::int) > 99 \<and> NotificationBadge 250 = Some (BadgeText ''99+'')
   \<and> NotificationBadge 99 = Some (BadgeNumber 99) \<and> (99::int) \<le> 99
   \<and> NotificationBadge 100 = Some (BadgeText ''99+'')"
  using C10_badge_cap [of 42 42] C10_badge_cap [of 250 0] C10_badge_cap [of 99 99]
    C10_badge_cap [of 100 0]
  by simp

subsection \<open>The unread count the client reports\<close>

text \<open>
  Claim C5, as amended. \<^verbatim>\<open>getUnreadCount\<close> passes a rejection on, returns the payload's
  \<^verbatim>\<open>unread\<close> field whenever that field is a number, and returns 0 whenever it is not. It
  does not clamp: a negative result is exactly a negative \<^verbatim>\<open>unread\<close> field of the payload,
  so the result is non-negative whenever the server's field is not a negative number.
\<close>

theorem C5_unread_passthrough:
  "getUnreadCount (Inl e) = Inl e
   \<and> (optional_chain data ''unread'' = JNumber n \<longrightarrow> getUnreadCount (Inr data) = Inr n)
   \<and> ((\<forall>k. optional_chain data ''unread'' \<noteq> JNumber k) \<longrightarrow> getUnreadCount (Inr data) = Inr 0)
   \<and> (getUnreadCount (Inr data) = Inr n \<and> n < 0 \<longrightarrow> optional_chain data ''unread'' = JNumber n)"
  by (auto simp: getUnreadCount_def split: js_value.splits)

theorem C5_unread_passthrough_witness:
  "optional_chain (JObject [(''unread'', JNumber 3)]) ''unread'' = JNumber 3
   \<and> getUnreadCount (Inr (JObject [(''unread'', JNumber 3)])) = Inr 3
   \<and> (\<forall>k. optional_chain (JObject [(''count'', JNumber 3)]) ''unread'' \<noteq> JNumber k)
   \<and> getUnreadCount (Inr (JObject [(''count'', JNumber 3)])) = Inr 0
   \<and> getUnreadCount (Inr (JObject [(''unread'', JNumber (- 2))])) = Inr (- 2) \<and> (- 2 :: int) < 0
   \<and> optional_chain (JObject [(''unread'', JNumber (- 2))]) ''unread'' = JNumber (- 2)"
  using C5_unread_passthrough [of undefined "JObject [(''unread'', JNumber 3)]" 3]
    C5_unread_passthrough [of undefined "JObject [(''count'', JNumber 3)]" 0]
    C5_unread_passthrough [of undefined "JObject [(''unread'', JNumber (- 2))]" "- 2"]
  by (simp add: optional_chain_def)

text \<open>
  The claim as stated fails: for the payload \<^verbatim>\<open>{"unread": -1}\<close> the function returns -1.
\<close>

theorem C5_negative_counterexample:
  "getUnreadCount (Inr (JObject [(''unread'', JNumber (- 1))])) = Inr (- 1)
   \<and> \<not> (0::int) \<le> - 1"
  by (simp add: getUnreadCount_def optional_chain_def)

subsection \<open>Sending\<close>

lemmas flow_defs = await_def try_catch_def try_finally_def seq_def done_with_def

lemma user_send_failed:
  "sendChatMessage srv rid (newMessage snap) (attached_file snap) = Inl e \<Longrightarrow>
   UserChatPanel_handleSend srv rid snap p =
     (None, if send_blocked snap then p
            else p\<lparr>sending := False,
                   send_requests := send_requests p @ [(newMessage snap, attached_file snap)],
                   alerts := alerts p @ [''Failed to send message'']\<rparr>)"
  by (simp add: UserChatPanel_handleSend_def flow_defs)

lemma user_send_ok:
  "sendChatMessage srv rid (newMessage snap) (attached_file snap) = Inr msg \<Longrightarrow>
   UserChatPanel_handleSend srv rid snap p =
     (None, if send_blocked snap then p
            else p\<lparr>sending := False,
                   send_requests := send_requests p @ [(newMessage snap, attached_file snap)],
                   messages := messages p @ [msg], newMessage := [], attached_file := None,
                   showEmoji := False\<rparr>)"
  by (simp add: UserChatPanel_handleSend_def flow_defs clear_compose_def)

lemma expert_send_failed:
  "sendExpertChatMessage srv rid (newMessage snap) (attached_file snap) = Inl e \<Longrightarrow>
   ExpertChat_handleSendMessage srv rid snap p =
     (None, if send_blocked snap then p
            else p\<lparr>sending := False,
                   send_requests := send_requests p @ [(newMessage snap, attached_file snap)],
                   alerts := alerts p @ [''Failed to send message. Please try again.'']\<rparr>)"
  by (simp add: ExpertChat_handleSendMessage_def flow_defs)

lemma expert_send_ok:
  "sendExpertChatMessage srv rid (newMessage snap) (attached_file snap) = Inr msg \<Longrightarrow>
   ExpertChat_handleSendMessage srv rid snap p =
     (None, if send_blocked snap then p
            else p\<lparr>sending := False,
                   send_requests := send_requests p @ [(newMessage snap, attached_file snap)],
                   messages := messages p @ [msg], newMessage := [], attached_file := None,
                   showEmoji := False\<rparr>)"
  by (simp add: ExpertChat_handleSendMessage_def flow_defs clear_compose_def)

text \<open>
  Claim C7. In both panels a send whose request fails leaves the compose text, the selected
  attachment and the local message list as they were, and the failure is shown in an alert.
  The compose state is cleared, and the returned message appended, only when the request
  succeeds.
\<close>

theorem C7_failed_send_keeps_compose:
  "(sendChatMessage srv rid (newMessage snap) (attached_file snap) = Inl e \<longrightarrow>
      (let p' = snd (UserChatPanel_handleSend srv rid snap p)
       in newMessage p' = newMessage p \<and> attached_file p' = attached_file p
          \<and> messages p' = messages p
          \<and> (\<not> send_blocked snap \<longrightarrow> alerts p' = alerts p @ [''Failed to send message''])))
   \<and> (sendExpertChatMessage srv rid (newMessage snap) (attached_file snap) = Inl e \<longrightarrow>
      (let p' = snd (ExpertChat_handleSendMessage srv rid snap p)
       in newMessage p' = newMessage p \<and> attached_file p' = attached_file p
          \<and> messages p' = messages p
          \<and> (\<not> send_blocked snap \<longrightarrow>
               alerts p' = alerts p @ [''Failed to send message. Please try again.''])))
   \<and> (\<not> send_blocked snap
        \<and> sendChatMessage srv rid (newMessage snap) (attached_file snap) = Inr msg \<longrightarrow>
      (let p' = snd (UserChatPanel_handleSend srv rid snap p)
       in newMessage p' = [] \<and> attached_file p' = None \<and> messages p' = messages p @ [msg]))
   \<and> (\<not> send_blocked snap
        \<and> sendExpertChatMessage srv rid (newMessage snap) (attached_file snap) = Inr msg \<longrightarrow>
      (let p' = snd (ExpertChat_handleSendMessage srv rid snap p)
       in newMessage p' = [] \<and> attached_file p' = None \<and> messages p' = messages p @ [msg]))"
  by (simp add: user_send_failed user_send_ok expert_send_failed expert_send_ok Let_def)

lemma js_trim_example: "js_trim ''leaves are yellowing'' = ''leaves are yellowing''"
  by (simp add: js_trim_def is_space_def is_white_space_def)

lemma typing_not_blocked: "\<not> send_blocked typing_panel"
  by (simp add: send_blocked_def typing_panel_def empty_panel_def js_trim_example)

theorem C7_failed_send_keeps_compose_witness:
  "sendChatMessage offline_backend ''R1'' (newMessage typing_panel) (attached_file typing_panel)
     = Inl NetworkError
   \<and> newMessage (snd (UserChatPanel_handleSend offline_backend ''R1'' typing_panel typing_panel))
       = ''leaves are yellowing''
   \<and> messages (snd (UserChatPanel_handleSend offline_backend ''R1'' typing_panel typing_panel)) = []
   \<and> alerts (snd (UserChatPanel_handleSend offline_backend ''R1'' typing_panel typing_panel))
       = [''Failed to send message'']
   \<and> sendExpertChatMessage offline_backend ''R1'' (newMessage typing_panel)
       (attached_file typing_panel) = Inl NetworkError
   \<and> newMessage (snd (ExpertChat_handleSendMessage offline_backend ''R1'' typing_panel typing_panel))
       = ''leaves are yellowing''
   \<and> \<not> send_blocked typing_panel
   \<and> sendChatMessage echo_backend ''R1'' (newMessage typing_panel) (attached_file typing_panel)
       = Inr (text_message User ''m1'' ''leaves are yellowing'')
   \<and> newMessage (snd (UserChatPanel_handleSend echo_backend ''R1'' typing_panel typing_panel)) = []
   \<and> messages (snd (UserChatPanel_handleSend echo_backend ''R1'' typing_panel typing_panel))
       = [text_message User ''m1'' ''leaves are yellowing'']
   \<and> sendExpertChatMessage echo_backend ''R1'' (newMessage typing_panel)
       (attached_file typing_panel) = Inr (text_message Expert ''m2'' ''leaves are yellowing'')
   \<and> newMessage (snd (ExpertChat_handleSendMessage echo_backend ''R1'' typing_panel typing_panel))
       = []"
  using C7_failed_send_keeps_compose
      [of offline_backend "''R1''" typing_panel NetworkError typing_panel undefined]
    C7_failed_send_keeps_compose
      [of echo_backend "''R1''" typing_panel undefined typing_panel
          "text_message User ''m1'' ''leaves are yellowing''"]
    C7_failed_send_keeps_compose
      [of echo_backend "''R1''" typing_panel undefined typing_panel
          "text_message Expert ''m2'' ''leaves are yellowing''"]
    typing_not_blocked
  by (simp add: Let_def offline_backend_def echo_backend_def typing_panel_def empty_panel_def)




subsection \<open>Notifications raised by a panel's poll tick\<close>

lemma poll_update_calls:
  "onNewMessage_calls (poll_update who has latest p) =
     onNewMessage_calls p
       + (if has \<and> count_from who (messages p) < count_from who latest then 1 else 0)"
  by (simp add: poll_update_def count_from_def Let_def)

lemma poll_update_messages: "messages (poll_update who has latest p) = latest"
  by (simp add: poll_update_def Let_def)

lemma count_from_append:
  "count_from who (xs @ ys) = count_from who xs + count_from who ys"
  by (simp add: count_from_def)

lemma count_from_pos: "(0 < count_from who ys) = (\<exists>m \<in> set ys. sender m = who)"
  by (auto simp: count_from_def filter_empty_conv)

lemmas tick_defs = flow_defs setState_def run_updaters_def

lemma user_tick_ok:
  "getChatMessages srv rid = Inr latest \<Longrightarrow>
     UserChatPanel_tick rid has srv p = (None, poll_update Expert has latest p)"
  by (simp add: UserChatPanel_tick_def UserChatPanel_callback_def tick_defs)

lemma expert_tick_ok:
  "getExpertChatMessages srv rid = Inr latest \<Longrightarrow>
     ExpertChat_tick rid has srv p = (None, poll_update User has latest p)"
  by (simp add: ExpertChat_tick_def ExpertChat_callback_def tick_defs)

lemma user_tick_failed:
  "getChatMessages srv rid = Inl e \<Longrightarrow> UserChatPanel_tick rid has srv p = (None, p)"
  by (simp add: UserChatPanel_tick_def UserChatPanel_callback_def tick_defs)

lemma expert_tick_failed:
  "getExpertChatMessages srv rid = Inl e \<Longrightarrow> ExpertChat_tick rid has srv p = (None, p)"
  by (simp add: ExpertChat_tick_def ExpertChat_callback_def tick_defs)

text \<open>
  Claim C2, as amended. A poll tick of either panel raises at most one \<^verbatim>\<open>onNewMessage\<close>
  call: exactly one when the callback is given and the fetched list holds more counterpart
  messages than the previous list, none otherwise, however many counterpart messages
  arrived since the previous tick. In particular, when the fetched list extends the
  previous one, one call is raised if the new part holds a counterpart message and none if
  it does not; a failed fetch raises none and keeps the list.
\<close>

theorem C2_one_call_per_tick:
  "(getChatMessages srv rid = Inr latest \<longrightarrow>
      onNewMessage_calls (snd (UserChatPanel_tick rid has srv p)) =
        onNewMessage_calls p
          + (if has \<and> count_from Expert (messages p) < count_from Expert latest then 1 else 0)
      \<and> messages (snd (UserChatPanel_tick rid has srv p)) = latest)
   \<and> (getExpertChatMessages srv rid = Inr latest \<longrightarrow>
      onNewMessage_calls (snd (ExpertChat_tick rid has srv p)) =
        onNewMessage_calls p
          + (if has \<and> count_from User (messages p) < count_from User latest then 1 else 0)
      \<and> messages (snd (ExpertChat_tick rid has srv p)) = latest)
   \<and> (getChatMessages srv rid = Inr (messages p @ new) \<longrightarrow>
      onNewMessage_calls (snd (UserChatPanel_tick rid has srv p)) =
        onNewMessage_calls p + (if has \<and> (\<exists>m \<in> set new. sender m = Expert) then 1 else 0))
   \<and> (getExpertChatMessages srv rid = Inr (messages p @ new) \<longrightarrow>
      onNewMessage_calls (snd (ExpertChat_tick rid has srv p)) =
        onNewMessage_calls p + (if has \<and> (\<exists>m \<in> set new. sender m = User) then 1 else 0))
   \<and> (getChatMessages srv rid = Inl e \<longrightarrow> snd (UserChatPanel_tick rid has srv p) = p)
   \<and> (getExpertChatMessages srv rid = Inl e \<longrightarrow> snd (ExpertChat_tick rid has srv p) = p)"
proof -
  have grow: "(count_from who xs < count_from who (xs @ ys)) = (\<exists>m \<in> set ys. sender m = who)"
    for who xs ys
    using count_from_pos [of who ys] by (simp add: count_from_append)
  show ?thesis
    by (simp add: user_tick_ok expert_tick_ok user_tick_failed expert_tick_failed
        poll_update_calls poll_update_messages grow)
qed

theorem C2_one_call_per_tick_witness:
  "getChatMessages replying_backend ''R1'' = Inr two_replies
   \<and> getChatMessages replying_backend ''R1'' = Inr (messages empty_panel @ two_replies)
   \<and> (\<exists>m \<in> set two_replies. sender m = Expert)
   \<and> onNewMessage_calls (snd (UserChatPanel_tick ''R1'' True replying_backend empty_panel)) = 1
   \<and> messages (snd (UserChatPanel_tick ''R1'' True replying_backend empty_panel)) = two_replies
   \<and> getExpertChatMessages replying_backend ''R1''
       = Inr (messages empty_panel @ [text_message User ''m0'' ''leaves are yellowing''])
   \<and> onNewMessage_calls (snd (ExpertChat_tick ''R1'' True replying_backend empty_panel)) = 1
   \<and> getChatMessages offline_backend ''R1'' = Inl NetworkError
   \<and> snd (UserChatPanel_tick ''R1'' True offline_backend empty_panel) = empty_panel
   \<and> getExpertChatMessages offline_backend ''R1'' = Inl NetworkError
   \<and> snd (ExpertChat_tick ''R1'' True offline_backend empty_panel) = empty_panel"
  using C2_one_call_per_tick
      [of replying_backend "''R1''" two_replies True empty_panel two_replies undefined]
    C2_one_call_per_tick
      [of replying_backend "''R1''" "[text_message User ''m0'' ''leaves are yellowing'']" True
          empty_panel "[text_message User ''m0'' ''leaves are yellowing'']" undefined]
    C2_one_call_per_tick
      [of offline_backend "''R1''" undefined True empty_panel undefined NetworkError]
  by (simp add: replying_backend_def offline_backend_def empty_panel_def two_replies_def
      text_message_def count_from_def)

text \<open>
  The claim as stated fails: two expert messages that arrive between two ticks of the
  farmer's panel raise one call, not two.
\<close>

theorem C2_two_messages_counterexample:
  "messages empty_panel = []
   \<and> length (filter (\<lambda>m. sender m = Expert) two_replies) = 2
   \<and> onNewMessage_calls (snd (UserChatPanel_tick ''R1'' True replying_backend empty_panel))
       - onNewMessage_calls empty_panel = 1"
  by (simp add: UserChatPanel_tick_def UserChatPanel_callback_def tick_defs poll_update_def
      Let_def replying_backend_def
      offline_backend_def empty_panel_def two_replies_def text_message_def)

subsection \<open>Poll ticks and failed requests\<close>

lemma try_catch_swallow: "fst (try_catch body (\<lambda>e. done_with (h e)) s) = None"
  by (simp add: try_catch_def done_with_def split: prod.splits option.splits)

lemma for_of_normal:
  "(\<And>x s. fst (body x s) = None) \<Longrightarrow> fst (for_of xs body s) = None"
proof (induction xs arbitrary: s)
  case Nil
  show ?case by simp
next
  case (Cons x xs)
  from Cons.prems have "fst (body x s) = None" by simp
  then obtain s' where "body x s = (None, s')" by (cases "body x s") simp
  with Cons show ?case by simp
qed

lemmas set_defs = setUnreadCount_def setLastMessageCount_def

lemma expert_poll_request_normal: "fst (expert_poll_request srv snap request d) = None"
  by (simp add: expert_poll_request_def flow_defs Let_def split: sum.splits)

lemma farmer_poll_request_normal: "fst (farmer_poll_request srv snap request d) = None"
  by (simp add: farmer_poll_request_def flow_defs split: sum.splits)

lemma user_tick_normal: "fst (UserChatPanel_tick rid has srv p) = None"
  using try_catch_swallow
    [of "await (getChatMessages srv rid) (\<lambda>latest. setState (poll_update Expert has latest))"
        "\<lambda>e. id" "(p, [])"]
  by (simp add: UserChatPanel_tick_def UserChatPanel_callback_def case_prod_beta)

lemma expert_tick_normal: "fst (ExpertChat_tick rid has srv p) = None"
  using try_catch_swallow
    [of "await (getExpertChatMessages srv rid) (\<lambda>latest. setState (poll_update User has latest))"
        "\<lambda>e. id" "(p, [])"]
  by (simp add: ExpertChat_tick_def ExpertChat_callback_def case_prod_beta)

lemma dashboard_tick_normal: "fst (ExpertDashboard_tick srv doc) = None"
  unfolding ExpertDashboard_tick_def expert_checkForNewMessages_def by (rule try_catch_swallow)

lemma consultation_tick_normal: "fst (ExpertConsultation_tick srv d) = None"
  unfolding ExpertConsultation_tick_def farmer_checkForNewMessages_def
  by (rule try_catch_swallow)

text \<open>Where a tick of the expert dashboard leaves the document.\<close>

lemma interceptor_location:
  "expertAPI_interceptor reply doc =
     (None, if reply = Inl (HttpError 401) then doc\<lparr>location_href := Some ''/expert-login''\<rparr>
            else doc)"
  by (simp add: expertAPI_interceptor_def done_with_def split: sum.splits error.splits)

lemma on_component_location: "location_href (snd (on_component body doc)) = location_href doc"
  by (simp add: on_component_def case_prod_beta)

lemma caught_result:
  "snd (try_catch body (\<lambda>error. done_with id) s) = snd (body s)"
  by (simp add: try_catch_def done_with_def split: prod.splits option.splits)

lemma seq_interceptor:
  "seq (expertAPI_interceptor reply) rest doc =
     rest (if reply = Inl (HttpError 401) then doc\<lparr>location_href := Some ''/expert-login''\<rparr>
           else doc)"
  by (simp add: seq_def interceptor_location)

lemma loop_location:
  "location_href (snd (await r (\<lambda>(pendingData, myData). on_component (body pendingData myData)) doc))
     = location_href doc"
  by (cases r) (simp_all add: await_def on_component_location case_prod_beta)

lemma dashboard_tick_location:
  "location_href (snd (ExpertDashboard_tick srv doc)) =
     (if list_fetch_unauthorized srv then Some ''/expert-login'' else location_href doc)"
  unfolding ExpertDashboard_tick_def expert_checkForNewMessages_def
  by (simp add: caught_result seq_interceptor loop_location list_fetch_unauthorized_def)

text \<open>A run of ticks that all end normally and keep the component mounted.\<close>

lemma setInterval_run_snoc:
  assumes normal: "\<And>env s. fst (tick env s) = None"
    and stays: "\<And>env s. env \<in> set envs \<Longrightarrow> mounted s \<Longrightarrow> mounted (snd (tick env s))"
  shows "mounted s \<Longrightarrow>
     setInterval_run mounted tick (envs @ [env]) s =
       (replicate (Suc (length envs)) None,
        snd (tick env (snd (setInterval_run mounted tick envs s))))
     \<and> mounted (snd (setInterval_run mounted tick envs s))"
  using stays
proof (induction envs arbitrary: s)
  case Nil
  from normal [of env s] obtain s' where "tick env s = (None, s')"
    by (cases "tick env s") auto
  with Nil show ?case by simp
next
  case (Cons x xs)
  from normal [of x s] obtain s' where t: "tick x s = (None, s')"
    by (cases "tick x s") auto
  have m: "mounted s'" using Cons.prems(2) [of x s] Cons.prems(1) t by simp
  have "setInterval_run mounted tick (xs @ [env]) s' =
       (replicate (Suc (length xs)) None,
        snd (tick env (snd (setInterval_run mounted tick xs s'))))
     \<and> mounted (snd (setInterval_run mounted tick xs s'))"
    using Cons.IH [OF m] Cons.prems(2) by simp
  with t Cons.prems(1) show ?case by (simp add: case_prod_beta)
qed

text \<open>
  Claim C9, as amended. Whatever the backend answers, a rejected request during a poll tick
  is caught inside the tick: the callbacks of both chat panels and of both pages end
  normally. On any run of a panel's interval or of the farmer page's interval every tick is
  executed, on the state the tick before it left, also after ticks whose requests failed.
  The same holds for the expert dashboard as long as no list request is answered 401. A
  401 answer to a list request makes the expert dashboard leave for the login page: the
  tick still ends normally, but the document is replaced and no further tick runs.
\<close>

theorem C9_rejections_caught:
  "fst (UserChatPanel_callback rid has srv pq) = None
   \<and> fst (ExpertChat_callback rid has srv pq) = None
   \<and> fst (ExpertDashboard_tick srv doc) = None
   \<and> fst (ExpertConsultation_tick srv fd) = None
   \<and> setInterval_run stays_mounted (UserChatPanel_tick rid has) (envs @ [env]) p =
       (replicate (Suc (length envs)) None,
        snd (UserChatPanel_tick rid has env
          (snd (setInterval_run stays_mounted (UserChatPanel_tick rid has) envs p))))
   \<and> setInterval_run stays_mounted (ExpertChat_tick rid has) (envs @ [env]) p =
       (replicate (Suc (length envs)) None,
        snd (ExpertChat_tick rid has env
          (snd (setInterval_run stays_mounted (ExpertChat_tick rid has) envs p))))
   \<and> setInterval_run stays_mounted ExpertConsultation_tick (envs @ [env]) fd =
       (replicate (Suc (length envs)) None,
        snd (ExpertConsultation_tick env
          (snd (setInterval_run stays_mounted ExpertConsultation_tick envs fd))))
   \<and> (on_page doc \<and> (\<forall>e \<in> set envs. \<not> list_fetch_unauthorized e) \<longrightarrow>
        setInterval_run on_page ExpertDashboard_tick (envs @ [env]) doc =
          (replicate (Suc (length envs)) None,
           snd (ExpertDashboard_tick env
             (snd (setInterval_run on_page ExpertDashboard_tick envs doc)))))
   \<and> (on_page doc \<and> list_fetch_unauthorized env \<longrightarrow>
        location_href (snd (ExpertDashboard_tick env doc)) = Some ''/expert-login''
        \<and> setInterval_run on_page ExpertDashboard_tick (env # envs) doc =
            ([None], snd (ExpertDashboard_tick env doc)))"
proof -
  have u: "fst (UserChatPanel_callback rid has srv pq) = None"
    unfolding UserChatPanel_callback_def by (rule try_catch_swallow)
  have x: "fst (ExpertChat_callback rid has srv pq) = None"
    unfolding ExpertChat_callback_def by (rule try_catch_swallow)
  have sm: "stays_mounted s" for s :: 'a
    by (simp add: stays_mounted_def)
  have ru: "setInterval_run stays_mounted (UserChatPanel_tick rid has) (envs @ [env]) p =
       (replicate (Suc (length envs)) None,
        snd (UserChatPanel_tick rid has env
          (snd (setInterval_run stays_mounted (UserChatPanel_tick rid has) envs p))))"
    using setInterval_run_snoc
      [of "UserChatPanel_tick rid has" envs stays_mounted p env] user_tick_normal
    by (simp add: stays_mounted_def)
  have rx: "setInterval_run stays_mounted (ExpertChat_tick rid has) (envs @ [env]) p =
       (replicate (Suc (length envs)) None,
        snd (ExpertChat_tick rid has env
          (snd (setInterval_run stays_mounted (ExpertChat_tick rid has) envs p))))"
    using setInterval_run_snoc
      [of "ExpertChat_tick rid has" envs stays_mounted p env] expert_tick_normal
    by (simp add: stays_mounted_def)
  have rf: "setInterval_run stays_mounted ExpertConsultation_tick (envs @ [env]) fd =
       (replicate (Suc (length envs)) None,
        snd (ExpertConsultation_tick env
          (snd (setInterval_run stays_mounted ExpertConsultation_tick envs fd))))"
    using setInterval_run_snoc
      [of ExpertConsultation_tick envs stays_mounted fd env] consultation_tick_normal
    by (simp add: stays_mounted_def)
  have re: "setInterval_run on_page ExpertDashboard_tick (envs @ [env]) doc =
          (replicate (Suc (length envs)) None,
           snd (ExpertDashboard_tick env
             (snd (setInterval_run on_page ExpertDashboard_tick envs doc))))"
    if "on_page doc" "\<forall>e \<in> set envs. \<not> list_fetch_unauthorized e"
  proof -
    have keep: "on_page (snd (ExpertDashboard_tick e s))" if "e \<in> set envs" "on_page s" for e s
      using that \<open>\<forall>e \<in> set envs. \<not> list_fetch_unauthorized e\<close>
      by (simp add: on_page_def dashboard_tick_location)
    from setInterval_run_snoc [of ExpertDashboard_tick envs on_page doc env,
        OF dashboard_tick_normal keep \<open>on_page doc\<close>]
    show ?thesis by simp
  qed
  have rl: "location_href (snd (ExpertDashboard_tick env doc)) = Some ''/expert-login''
        \<and> setInterval_run on_page ExpertDashboard_tick (env # envs) doc =
            ([None], snd (ExpertDashboard_tick env doc))"
    if "on_page doc" "list_fetch_unauthorized env"
  proof -
    have l: "location_href (snd (ExpertDashboard_tick env doc)) = Some ''/expert-login''"
      using that by (simp add: dashboard_tick_location)
    then have gone: "\<not> on_page (snd (ExpertDashboard_tick env doc))"
      by (simp add: on_page_def)
    obtain s' where t: "ExpertDashboard_tick env doc = (None, s')"
      using dashboard_tick_normal [of env doc] by (cases "ExpertDashboard_tick env doc") auto
    from gone t have "setInterval_run on_page ExpertDashboard_tick envs s' = ([], s')"
      by (cases envs) simp_all
    with t l that(1) show ?thesis by simp
  qed
  from u x ru rx rf re rl show ?thesis
    using dashboard_tick_normal consultation_tick_normal by blast
qed

lemmas backend_example_defs = offline_backend_def online_backend_def unread_down_backend_def
  replying_backend_def unauthorized_backend_def all_read_backend_def request_R1_def

lemmas poll_defs = ExpertDashboard_tick_def expert_checkForNewMessages_def
  expert_poll_request_def ExpertConsultation_tick_def farmer_checkForNewMessages_def
  farmer_poll_request_def expertAPI_interceptor_def on_component_def promise_all_def
  getUnreadCount_def optional_chain_def flow_defs set_defs

text \<open>
  A tick whose fetch fails is followed by one that succeeds: the panel then holds the two
  replies, the dashboard shows the three unread messages. With the expired token the
  dashboard leaves for the login page after one tick.
\<close>

theorem C9_rejections_caught_witness:
  "getChatMessages offline_backend ''R1'' = Inl NetworkError
   \<and> setInterval_run stays_mounted (UserChatPanel_tick ''R1'' True)
        ([offline_backend] @ [replying_backend]) empty_panel
       = ([None, None], empty_panel\<lparr>messages := two_replies, onNewMessage_calls := 1\<rparr>)
   \<and> on_page expert_document
   \<and> \<not> list_fetch_unauthorized offline_backend
   \<and> fst (setInterval_run on_page ExpertDashboard_tick ([offline_backend] @ [online_backend])
        expert_document) = [None, None]
   \<and> displayed_unread (component (snd (setInterval_run on_page ExpertDashboard_tick
        ([offline_backend] @ [online_backend]) expert_document))) ''R1'' = 3
   \<and> list_fetch_unauthorized unauthorized_backend
   \<and> location_href (snd (ExpertDashboard_tick unauthorized_backend expert_document))
       = Some ''/expert-login''
   \<and> fst (setInterval_run on_page ExpertDashboard_tick (unauthorized_backend # [online_backend])
        expert_document) = [None]"
proof -
  have h: "on_page expert_document"
    "\<not> list_fetch_unauthorized offline_backend"
    "list_fetch_unauthorized unauthorized_backend"
    by (simp_all add: on_page_def expert_document_def list_fetch_unauthorized_def
        backend_example_defs)
  have t1: "UserChatPanel_tick ''R1'' True offline_backend empty_panel = (None, empty_panel)"
    by (simp add: user_tick_failed offline_backend_def)
  have t2: "UserChatPanel_tick ''R1'' True replying_backend empty_panel
      = (None, empty_panel\<lparr>messages := two_replies, onNewMessage_calls := 1\<rparr>)"
    by (simp add: UserChatPanel_tick_def UserChatPanel_callback_def tick_defs poll_update_def
        Let_def backend_example_defs empty_panel_def two_replies_def text_message_def)
  have d1: "ExpertDashboard_tick offline_backend expert_document = (None, expert_document)"
    by (simp add: poll_defs backend_example_defs expert_document_def)
  have d2: "displayed_unread (component (snd (ExpertDashboard_tick online_backend
      expert_document))) ''R1'' = 3"
    by (simp add: poll_defs backend_example_defs expert_document_def fresh_expert_dashboard_def
        displayed_unread_def or_zero_def)
  show ?thesis
    using h
      C9_rejections_caught [where envs = "[offline_backend]" and env = replying_backend
        and p = empty_panel and rid = "''R1''" and has = True and doc = expert_document]
      C9_rejections_caught [where envs = "[offline_backend]" and env = online_backend
        and doc = expert_document]
      C9_rejections_caught [where envs = "[online_backend]" and env = unauthorized_backend
        and doc = expert_document]
      t1 t2 d1 d2
    by (simp add: stays_mounted_def offline_backend_def)
qed

text \<open>
  The claim as stated fails: on the expert dashboard a list request answered 401 ends the
  polling. Of the two ticks due, only the first is executed; the second, which would have
  shown three unread messages for request R1, never runs.
\<close>

theorem C9_unauthorized_counterexample:
  "getPendingRequests unauthorized_backend = Inl (HttpError 401)
   \<and> setInterval_run on_page ExpertDashboard_tick [unauthorized_backend, online_backend]
        expert_document
       = ([None], expert_document\<lparr>location_href := Some ''/expert-login''\<rparr>)
   \<and> displayed_unread (component (snd (ExpertDashboard_tick online_backend expert_document)))
        ''R1'' = 3"
  by (simp add: poll_defs backend_example_defs expert_document_def fresh_expert_dashboard_def
      on_page_def displayed_unread_def or_zero_def)

subsection \<open>The poll callback of the mount render\<close>

text \<open>
  Claim C1, evaluated where the code departs from it. On the expert dashboard a first tick
  finds request R1 fully read and records its three user messages as the baseline. On the
  next tick the unread-count fetch fails while the same three messages are served, so the
  delta to the baseline is 0. The fallback, however, reads the baseline of the mount
  render, which is empty: it displays 3. On the farmer's page a failed unread-count fetch
  triggers no fallback at all: with two expert messages and no baseline the count stays 0
  and no baseline is set.
\<close>

theorem C1_fallback_reads_mount_baseline:
  "lastMessageCounts (component (snd (ExpertDashboard_tick all_read_backend expert_document)))
     ''R1'' = Some 3
   \<and> unread_count_reply unread_down_backend ''R1'' = Inl NetworkError
   \<and> getExpertChatMessages unread_down_backend ''R1'' = Inr three_user_messages
   \<and> max 0 (count_from User three_user_messages
        - or_zero (lastMessageCounts
            (component (snd (ExpertDashboard_tick all_read_backend expert_document))) ''R1'')) = 0
   \<and> displayed_unread (component (snd (ExpertDashboard_tick unread_down_backend
        (snd (ExpertDashboard_tick all_read_backend expert_document))))) ''R1'' = 3
   \<and> getChatMessages unread_down_backend ''R1'' = Inr two_replies
   \<and> max 0 (count_from Expert two_replies
        - or_zero (lastMessageCounts fresh_consultation ''R1'')) = 2
   \<and> displayed_unread (snd (ExpertConsultation_tick unread_down_backend fresh_consultation))
        ''R1'' = 0
   \<and> lastMessageCounts (snd (ExpertConsultation_tick unread_down_backend fresh_consultation))
        ''R1'' = None"
  by (simp add: poll_defs backend_example_defs expert_document_def fresh_expert_dashboard_def
      fresh_consultation_def displayed_unread_def or_zero_def count_from_def Let_def
      three_user_messages_def two_replies_def text_message_def)

text \<open>
  Claim C3, evaluated where the code departs from it. The expert opens the chat of request
  R1, which clears its badge and makes it the open chat. The next poll tick does not skip
  it: the callback compares the request id with the \<^verbatim>\<open>openChatId\<close> of the mount render,
  which is \<^verbatim>\<open>null\<close>, and stores the server's count, so the badge of the open conversation
  shows 3. The same happens on the farmer's page.
\<close>

theorem C3_open_chat_is_polled:
  "openChatId (snd (handleStartChat online_backend request_R1 fresh_expert_dashboard))
     = Some ''R1''
   \<and> displayed_unread (snd (handleStartChat online_backend request_R1 fresh_expert_dashboard))
        ''R1'' = 0
   \<and> displayed_unread (component (snd (ExpertDashboard_tick online_backend
        (expert_document\<lparr>component :=
           snd (handleStartChat online_backend request_R1 fresh_expert_dashboard)\<rparr>)))) ''R1'' = 3
   \<and> openChatId (snd (openChat online_backend ''R1'' ''common rust'' fresh_consultation))
        = Some ''R1''
   \<and> displayed_unread (snd (openChat online_backend ''R1'' ''common rust'' fresh_consultation))
        ''R1'' = 0
   \<and> displayed_unread (snd (ExpertConsultation_tick online_backend
        (snd (openChat online_backend ''R1'' ''common rust'' fresh_consultation)))) ''R1'' = 3"
  by (simp add: poll_defs backend_example_defs expert_document_def fresh_expert_dashboard_def
      fresh_consultation_def displayed_unread_def or_zero_def handleStartChat_def openChat_def)

lemmas record_example_defs = fresh_expert_dashboard_def fresh_consultation_def request_R1_def

subsection \<open>Opening and closing a chat\<close>

lemma handleStartChat_result:
  "handleStartChat srv request d =
     (None, (setUnreadCount (req_id request) 0 d)
        \<lparr>openChatId := Some (req_id request),
         selectedChatRequest := Some request,
         showChat := True\<rparr>)"
  by (simp add: handleStartChat_def flow_defs split: sum.splits)

lemma openChat_result:
  "openChat srv requestId disease_name d =
     (None, (setUnreadCount requestId 0 d)
        \<lparr>openChatId := Some requestId,
         activeChat := Some \<lparr>req_id = requestId, disease = disease_name\<rparr>,
         showChat := True\<rparr>)"
  by (simp add: openChat_def flow_defs split: sum.splits)

lemma handleCloseChat_result:
  "selectedChatRequest snap = Some sel \<Longrightarrow>
   handleCloseChat srv snap d =
     (None, (setUnreadCount (req_id sel) 0 d)
        \<lparr>showChat := False, selectedChatRequest := None, openChatId := None\<rparr>)"
  by (simp add: handleCloseChat_def flow_defs split: sum.splits)

text \<open>
  Claim C6, as amended. Opening a chat (\<^verbatim>\<open>handleStartChat\<close> on the expert dashboard,
  \<^verbatim>\<open>openChat\<close> on the farmer's page) and closing one (\<^verbatim>\<open>handleCloseChat\<close>) set the
  displayed unread count of that conversation to 0 whatever the backend answers, so also
  when the mark-read request fails; the failure is swallowed and the handler ends
  normally. Only the expert dashboard's \<^verbatim>\<open>markMessagesAsRead\<close> callback depends on the
  outcome: it zeroes the count when the request succeeds and changes nothing when it fails.
\<close>

theorem C6_badge_zeroed_regardless:
  "displayed_unread (snd (handleStartChat srv request ed)) (req_id request) = 0
   \<and> fst (handleStartChat srv request ed) = None
   \<and> displayed_unread (snd (openChat srv rid disease_name fd)) rid = 0
   \<and> fst (openChat srv rid disease_name fd) = None
   \<and> (selectedChatRequest esnap = Some sel \<longrightarrow>
        displayed_unread (snd (handleCloseChat srv esnap ed)) (req_id sel) = 0
        \<and> fst (handleCloseChat srv esnap ed) = None)
   \<and> (markChatRead srv rid = Inl e \<longrightarrow> expert_markMessagesAsRead srv rid ed = (None, ed))
   \<and> (markChatRead srv rid = Inr () \<longrightarrow>
        displayed_unread (snd (expert_markMessagesAsRead srv rid ed)) rid = 0)"
  by (simp add: handleStartChat_result openChat_result handleCloseChat_result
      expert_markMessagesAsRead_def flow_defs set_defs displayed_unread_def or_zero_def)

theorem C6_badge_zeroed_regardless_witness:
  "selectedChatRequest expert_with_three_unread = Some request_R1
   \<and> displayed_unread (snd (handleCloseChat offline_backend expert_with_three_unread
        expert_with_three_unread)) ''R1'' = 0
   \<and> markChatRead offline_backend ''R1'' = Inl NetworkError
   \<and> expert_markMessagesAsRead offline_backend ''R1'' expert_with_three_unread
       = (None, expert_with_three_unread)
   \<and> displayed_unread expert_with_three_unread ''R1'' = 3
   \<and> markChatRead online_backend ''R1'' = Inr ()
   \<and> displayed_unread (snd (expert_markMessagesAsRead online_backend ''R1''
        expert_with_three_unread)) ''R1'' = 0
   \<and> displayed_unread (snd (openChat offline_backend ''R1'' ''common rust''
        farmer_with_three_unread)) ''R1'' = 0"
  using C6_badge_zeroed_regardless
      [of offline_backend request_R1 expert_with_three_unread "''R1''" "''common rust''"
          farmer_with_three_unread expert_with_three_unread request_R1 NetworkError]
    C6_badge_zeroed_regardless
      [of online_backend request_R1 expert_with_three_unread "''R1''" "''common rust''"
          farmer_with_three_unread expert_with_three_unread request_R1 NetworkError]
  by (simp add: expert_with_three_unread_def farmer_with_three_unread_def record_example_defs
      offline_backend_def online_backend_def unread_down_backend_def displayed_unread_def
      or_zero_def)

text \<open>
  The claim as stated fails: the mark-read request is rejected, and the badge of request
  R1, which showed 3, shows 0 after the expert opens the chat, after the farmer opens it,
  and after the expert closes it.
\<close>

theorem C6_failed_mark_read_counterexample:
  "markChatRead offline_backend (req_id request_R1) = Inl NetworkError
   \<and> displayed_unread expert_with_three_unread (req_id request_R1) = 3
   \<and> displayed_unread (snd (handleStartChat offline_backend request_R1
        expert_with_three_unread)) (req_id request_R1) = 0
   \<and> displayed_unread farmer_with_three_unread ''R1'' = 3
   \<and> displayed_unread (snd (openChat offline_backend ''R1'' ''common rust''
        farmer_with_three_unread)) ''R1'' = 0
   \<and> displayed_unread (snd (handleCloseChat offline_backend expert_with_three_unread
        expert_with_three_unread)) (req_id request_R1) = 0"
  by (simp add: handleStartChat_def openChat_def handleCloseChat_def flow_defs set_defs
      displayed_unread_def or_zero_def expert_with_three_unread_def
      farmer_with_three_unread_def record_example_defs offline_backend_def)

subsection \<open>Monotonic read cursor\<close>

lemma markRead_same:
  "getCursor rid role (markRead rid role m cs) =
     Some (case getCursor rid role cs of None \<Rightarrow> m | Some c \<Rightarrow> max c m)"
  by (auto simp: markRead_def getCursor_def max_def split: option.splits)

lemma markRead_other:
  "(r, w) \<noteq> (rid, role) \<Longrightarrow> getCursor rid role (markRead r w m cs) = getCursor rid role cs"
  by (auto simp: markRead_def getCursor_def split: option.splits)

text \<open>The cursor a start value and a list of markers lead to.\<close>

lemma markRead_all_cursor:
  "getCursor rid role (markRead_all calls cs) =
     (case (getCursor rid role cs, markers_for rid role calls) of
        (None, []) \<Rightarrow> None
      | (None, m # ms) \<Rightarrow> Some (Max (set (m # ms)))
      | (Some c, ms) \<Rightarrow> Some (Max (set (c # ms))))"
proof (induction calls arbitrary: cs)
  case Nil
  show ?case by (simp add: markers_for_def split: option.splits)
next
  case (Cons call calls)
  obtain r w m where call: "call = (r, w, m)" by (cases call)
  show ?case
  proof (cases "(r, w) = (rid, role)")
    case True
    then have ms: "markers_for rid role (call # calls) = m # markers_for rid role calls"
      by (simp add: markers_for_def call)
    show ?thesis
    proof (cases "getCursor rid role cs")
      case None
      with True call ms Cons.IH [of "markRead rid role m cs"] show ?thesis
        by (simp add: markRead_same)
    next
      case (Some c)
      have "Max (insert (max c m) (set (markers_for rid role calls)))
          = Max (insert c (insert m (set (markers_for rid role calls))))"
        by (cases "markers_for rid role calls = []") (simp_all add: max.assoc)
      with Some True call ms Cons.IH [of "markRead rid role m cs"] show ?thesis
        by (simp add: markRead_same)
    qed
  next
    case False
    then have ms: "markers_for rid role (call # calls) = markers_for rid role calls"
      by (auto simp: markers_for_def call)
    from False call ms Cons.IH [of "markRead r w m cs"] show ?thesis
      by (simp add: markRead_other)
  qed
qed

text \<open>
  Claim C4. After any sequence of \<^verbatim>\<open>markRead\<close> calls, starting with no cursors and
  interleaved in any order with calls on other (request, role) pairs, the cursor of a pair
  that was marked at least once is the greatest marker of the calls made on that pair; so
  two sequences whose calls on the pair carry the same markers, in whatever order, end with
  the same cursor. A call whose marker is at or below the existing cursor changes nothing,
  and no call lowers a cursor.
\<close>

theorem C4_cursor_is_max:
  "(markers_for rid role calls \<noteq> [] \<longrightarrow>
      getCursor rid role (markRead_all calls Map.empty) = Some (Max (set (markers_for rid role calls))))
   \<and> (markers_for rid role calls \<noteq> []
        \<and> set (markers_for rid role calls') = set (markers_for rid role calls) \<longrightarrow>
      getCursor rid role (markRead_all calls' Map.empty)
        = getCursor rid role (markRead_all calls Map.empty))
   \<and> (getCursor rid role cs = Some c \<and> m \<le> c \<longrightarrow> markRead rid role m cs = cs)
   \<and> (getCursor rid role cs = Some c \<longrightarrow>
        (\<exists>c'. getCursor rid role (markRead_all calls cs) = Some c' \<and> c \<le> c'))"
proof -
  have a: "getCursor rid role (markRead_all xs Map.empty) = Some (Max (set (markers_for rid role xs)))"
    if "markers_for rid role xs \<noteq> []" for xs
  proof -
    have "getCursor rid role Map.empty = None" by (simp add: getCursor_def)
    with that show ?thesis
      by (cases "markers_for rid role xs") (simp_all add: markRead_all_cursor)
  qed
  have b: "getCursor rid role (markRead_all calls' Map.empty)
        = getCursor rid role (markRead_all calls Map.empty)"
    if "markers_for rid role calls \<noteq> []"
      "set (markers_for rid role calls') = set (markers_for rid role calls)"
  proof -
    from that have "markers_for rid role calls' \<noteq> []" by auto
    with that show ?thesis by (simp add: a)
  qed
  have c: "markRead rid role m cs = cs" if "getCursor rid role cs = Some c" "m \<le> c"
    using that by (simp add: markRead_def getCursor_def)
  have d: "\<exists>c'. getCursor rid role (markRead_all calls cs) = Some c' \<and> c \<le> c'"
    if "getCursor rid role cs = Some c"
    using that by (simp add: markRead_all_cursor)
  from a [of calls] b c d show ?thesis by blast
qed

theorem C4_cursor_is_max_witness:
  "markers_for ''R1'' Expert interleaved_calls = [4, 7, 2]
   \<and> getCursor ''R1'' Expert (markRead_all interleaved_calls Map.empty) = Some 7
   \<and> set (markers_for ''R1'' Expert (rev interleaved_calls))
       = set (markers_for ''R1'' Expert interleaved_calls)
   \<and> getCursor ''R1'' Expert (markRead_all (rev interleaved_calls) Map.empty) = Some 7
   \<and> getCursor ''R1'' Expert [(''R1'', Expert) \<mapsto> 7] = Some 7 \<and> (5::nat) \<le> 7
   \<and> markRead ''R1'' Expert 5 [(''R1'', Expert) \<mapsto> 7] = [(''R1'', Expert) \<mapsto> 7]
   \<and> (\<exists>c'. getCursor ''R1'' Expert (markRead_all interleaved_calls [(''R1'', Expert) \<mapsto> 7])
          = Some c' \<and> 7 \<le> c')"
proof -
  have ms: "markers_for ''R1'' Expert interleaved_calls = [4, 7, 2]"
    "markers_for ''R1'' Expert (rev interleaved_calls) = [2, 7, 4]"
    by (simp_all add: markers_for_def interleaved_calls_def)
  have g: "getCursor ''R1'' Expert [(''R1'', Expert) \<mapsto> 7] = Some 7"
    by (simp add: getCursor_def)
  have s: "{2, 7, 4} = {4, 7, 2::nat}" by auto
  show ?thesis
    using C4_cursor_is_max
        [of "''R1''" Expert interleaved_calls "rev interleaved_calls"
            "[(''R1'', Expert) \<mapsto> 7]" 7 5]
      ms g s
    by simp
qed

end
